theory Spec2Isabelle
  imports Complex_Main
begin

section \<open>Exceptions\<close>

text \<open>
  Every Python exception the modelled code can raise is a value of this type; a function
  that can raise returns \<open>exn + 'a\<close>, with \<open>Inl\<close> for the exception.
\<close>

datatype exn =
    NameError string
  | AttributeError string
  | StopIteration
  | IndexError
  | ValueError string
  | UnboundLocalError string
  | ValidationError string
  | InvalidArgumentError string
  | RuntimeError string

section \<open>Dataset assembly (\<open>MainWindow.assemble_data\<close>)\<close>

subsection \<open>Module-level configuration\<close>

datatype information_mode = Info_S | Info_log_S | Info_normalized_log_S

text \<open>Line 55: \<open>information_set = "normalized_log_S"\<close>.\<close>

definition information_set :: information_mode where
  "information_set = Info_normalized_log_S"

text \<open>Line 257: \<open>payoff_func = lambda x: -np.maximum(x - self.strike, 0.0)\<close>.\<close>

definition payoff_func :: "real \<Rightarrow> real \<Rightarrow> real" where
  "payoff_func strike x = - max (x - strike) 0"

text \<open>
  Python's \<open>int(x)\<close> on a float truncates towards zero. Floats are idealised as reals.
\<close>

definition python_int :: "real \<Rightarrow> int" where
  "python_int x = (if 0 \<le> x then \<lfloor>x\<rfloor> else \<lceil>x\<rceil>)"

text \<open>Line 456: \<open>self.nobs = int(self.Ktrain*(1+self.Ktest_ratio))\<close>.\<close>

definition nobs :: "int \<Rightarrow> real \<Rightarrow> int" where
  "nobs Ktrain Ktest_ratio = python_int (real_of_int Ktrain * (1 + Ktest_ratio))"

text \<open>Line 492: \<open>self.test_size = int(self.Ktrain*self.Ktest_ratio)\<close>.\<close>

definition test_size :: "int \<Rightarrow> real \<Rightarrow> int" where
  "test_size Ktrain Ktest_ratio = python_int (real_of_int Ktrain * Ktest_ratio)"

subsection \<open>Trade set, information set, payoff\<close>

text \<open>
  \<open>self.S\<close> is a two-dimensional array with one row per simulated path; it is a list of
  rows here. \<open>np.stack((self.S), axis=1)\<close> has the time step as its first axis, so its
  \<open>i\<close>-th entry is the \<open>i\<close>-th column of \<open>S\<close>: the value of every path at step \<open>i\<close>.
\<close>

definition trade_set :: "real list list \<Rightarrow> nat \<Rightarrow> real list" where
  "trade_set S i = map (\<lambda>row. row ! i) S"

definition information :: "information_mode \<Rightarrow> real \<Rightarrow> real \<Rightarrow> real" where
  "information mode S0 x =
     (case mode of
        Info_S \<Rightarrow> x
      | Info_log_S \<Rightarrow> ln x
      | Info_normalized_log_S \<Rightarrow> ln (x / S0))"

definition I_set :: "information_mode \<Rightarrow> real \<Rightarrow> real list list \<Rightarrow> nat \<Rightarrow> real list" where
  "I_set mode S0 S i = map (\<lambda>row. information mode S0 (row ! i)) S"

text \<open>Line 469: \<open>self.payoff_T = self.payoff_func(self.S[:,-1])\<close>.\<close>

definition payoff_T :: "real \<Rightarrow> real list list \<Rightarrow> real list" where
  "payoff_T strike S = map (\<lambda>row. payoff_func strike (last row)) S"

subsection \<open>The list \<open>x_all\<close> (lines 484 to 489)\<close>

text \<open>One pass of the \<open>for i in range(self.N+1)\<close> loop body.\<close>

definition x_all_step ::
  "(nat \<Rightarrow> 'a) \<Rightarrow> (nat \<Rightarrow> 'a) \<Rightarrow> nat \<Rightarrow> 'a list \<Rightarrow> nat \<Rightarrow> 'a list" where
  "x_all_step trade info N x i =
     (let x1 = x @ [trade i] in if i \<noteq> N then x1 @ [info i] else x1)"

definition x_all_loop :: "(nat \<Rightarrow> 'a) \<Rightarrow> (nat \<Rightarrow> 'a) \<Rightarrow> 'a \<Rightarrow> nat \<Rightarrow> 'a list" where
  "x_all_loop trade info payoff N =
     foldl (x_all_step trade info N) [] [0..<N + 1] @ [payoff]"

text \<open>
  \<open>np.stack\<close> (line 471) raises ValueError on an array without rows. Indexing
  \<open>trade_set[i,:,None]\<close> for \<open>i\<close> up to \<open>N\<close> raises IndexError when the array of paths
  has fewer than \<open>N + 1\<close> columns.
\<close>

definition x_all :: "nat \<Rightarrow> real \<Rightarrow> real \<Rightarrow> real list list \<Rightarrow> exn + real list list" where
  "x_all N S0 strike S =
     (if S = [] then Inl (ValueError ''need at least one array to stack'')
      else if list_ex (\<lambda>row. length row < N + 1) S then Inl IndexError
      else Inr (x_all_loop (trade_set S) (I_set information_set S0 S) (payoff_T strike S) N))"

text \<open>
  \<open>tf.data.Dataset.from_tensor_slices(tuple(xs))\<close> slices every array of the tuple along
  its first axis: element \<open>k\<close> of the dataset is the tuple of the \<open>k\<close>-th rows.
\<close>

definition tensor_slice :: "'a list list \<Rightarrow> nat \<Rightarrow> 'a list" where
  "tensor_slice xs k = map (\<lambda>col. col ! k) xs"

definition from_tensor_slices :: "'a list list \<Rightarrow> 'a list list" where
  "from_tensor_slices xs =
     (case xs of [] \<Rightarrow> [] | col # _ \<Rightarrow> map (tensor_slice xs) [0..<length col])"

text \<open>
  The ordering the specification gives for a training example: the pairs
  (trade signal, information signal) for steps \<open>0\<close> to \<open>N - 1\<close>, then the information
  signal at step \<open>N\<close>, then the terminal payoff.
\<close>

definition spec_TrainingExample ::
  "(nat \<Rightarrow> 'a) \<Rightarrow> (nat \<Rightarrow> 'a) \<Rightarrow> 'a \<Rightarrow> nat \<Rightarrow> 'a list" where
  "spec_TrainingExample trade info payoff N =
     concat (map (\<lambda>i. [trade i, info i]) [0..<N]) @ [info N, payoff]"

subsection \<open>Train/test split\<close>

text \<open>
  Modelled from the spec: \<open>utilities.train_test_split\<close> is imported (line 39) and its
  source is not part of the files at hand. The specification describes a non-shuffling
  split by contiguous index ranges, either the first \<open>test_size\<close> paths or the last ones
  going to the test set, a test size that must be below the number of paths (a
  validation error otherwise), and a test size of zero being allowed. Both conventions
  are modelled; the rule is a parameter.
\<close>

datatype split_rule = Test_last | Test_first

definition split_array :: "split_rule \<Rightarrow> nat \<Rightarrow> 'a list \<Rightarrow> 'a list \<times> 'a list" where
  "split_array rule k x =
     (case rule of
        Test_last \<Rightarrow> (take (length x - k) x, drop (length x - k) x)
      | Test_first \<Rightarrow> (drop k x, take k x))"

definition train_test_split ::
  "split_rule \<Rightarrow> 'a list list \<Rightarrow> int \<Rightarrow> exn + ('a list list \<times> 'a list list)" where
  "train_test_split rule data tsize =
     (if tsize < 0 \<or> list_ex (\<lambda>x. int (length x) \<le> tsize) data
      then Inl (ValidationError ''test_size'')
      else Inr (map (\<lambda>x. fst (split_array rule (nat tsize) x)) data,
                map (\<lambda>x. snd (split_array rule (nat tsize) x)) data))"

text \<open>The path indices that go to each side: the split of \<open>[0, ..., n - 1]\<close>.\<close>

definition train_indices :: "split_rule \<Rightarrow> nat \<Rightarrow> nat \<Rightarrow> nat list" where
  "train_indices rule n k = fst (split_array rule k [0..<n])"

definition test_indices :: "split_rule \<Rightarrow> nat \<Rightarrow> nat \<Rightarrow> nat list" where
  "test_indices rule n k = snd (split_array rule k [0..<n])"

subsection \<open>\<open>assemble_data\<close> (lines 468 to 500)\<close>

text \<open>
  The attributes \<open>assemble_data\<close> sets on the window, and the dataset it returns
  (\<open>dataset\<close>: the local \<open>training_dataset\<close> of line 499).
\<close>

record assembled =
  xtrain :: "real list list"
  xtest :: "real list list"
  S_train :: "real list list"
  S_test :: "real list list"
  option_payoff_train :: "real list"
  option_payoff_test :: "real list"
  dataset :: "real list list"

definition assemble_data ::
  "split_rule \<Rightarrow> int \<Rightarrow> real \<Rightarrow> nat \<Rightarrow> real \<Rightarrow> real \<Rightarrow> real list list \<Rightarrow> exn + assembled" where
  "assemble_data rule Ktrain Ktest_ratio N S0 strike S =
     (case x_all N S0 strike S of
        Inl e \<Rightarrow> Inl e
      | Inr xa \<Rightarrow>
        (let ts = test_size Ktrain Ktest_ratio in
         case train_test_split rule xa ts of
           Inl e \<Rightarrow> Inl e
         | Inr (xtr, xte) \<Rightarrow>
           (case train_test_split rule [S] ts of
              Inl e \<Rightarrow> Inl e
            | Inr (Str, Ste) \<Rightarrow>
              (case train_test_split rule [last xa] ts of
                 Inl e \<Rightarrow> Inl e
               | Inr (ptr, pte) \<Rightarrow>
                 Inr \<lparr> xtrain = xtr, xtest = xte,
                       S_train = hd Str, S_test = hd Ste,
                       option_payoff_train = hd ptr, option_payoff_test = hd pte,
                       dataset = from_tensor_slices xtr \<rparr>))))"

section \<open>Loss functions\<close>

text \<open>
  Modelled from the spec: \<open>loss_metrics.Entropy\<close> is imported (line 38) and its source is
  not part of the files at hand. The specification gives the entropic loss of a vector of
  terminal wealth \<open>W\<close> with risk aversion \<open>\<lambda>\<close> as \<open>(1/\<lambda>) log (mean (exp (-\<lambda> W)))\<close>.
  The second argument is the certainty-equivalent variable that line 154 passes; the
  formula does not use it. Floats are idealised as reals.
\<close>

definition mean :: "real list \<Rightarrow> real" where
  "mean xs = sum_list xs / real (length xs)"

definition Entropy :: "real list \<Rightarrow> real \<Rightarrow> real \<Rightarrow> real" where
  "Entropy wealth w loss_param =
     (1 / loss_param) * ln (mean (map (\<lambda>x. exp (- loss_param * x)) wealth))"

text \<open>
  Modelled from the spec: \<open>loss_metrics.CVaR\<close> is imported (line 38) and its source is
  not part of the files at hand. The specification describes the expected shortfall at
  confidence level \<open>\<alpha>\<close> in the Rockafellar-Uryasev formulation, with an auxiliary
  threshold variable \<open>w\<close>: the mean of \<open>w + max (- W - w) 0 / (1 - \<alpha>)\<close>.
\<close>

definition CVaR :: "real list \<Rightarrow> real \<Rightarrow> real \<Rightarrow> real" where
  "CVaR wealth w loss_param =
     mean (map (\<lambda>x. w + max (- x - w) 0 / (1 - loss_param)) wealth)"

section \<open>The delta-only sub-model (\<open>MainWindow.Define_DH_Delta_Strategy_Model\<close>)\<close>

text \<open>
  Python's \<open>str\<close> on a non-negative integer: its decimal digits.
\<close>

definition digit_char :: "nat \<Rightarrow> char" where
  "digit_char n = ''0123456789'' ! (n mod 10)"

function str_nat :: "nat \<Rightarrow> string" where
  "str_nat n = (if n < 10 then [digit_char n] else str_nat (n div 10) @ [digit_char n])"
  by pat_completeness auto
termination
  by (relation "measure id") auto

text \<open>
  The names bound at module level, each with the truth value an \<open>if\<close> would read from it.
  A name that is neither a local of the function nor bound here (nor a builtin) raises
  NameError when it is read.
\<close>

definition module_globals :: "(string \<times> bool) list" where
  "module_globals =
     [(''sys'', True), (''os'', True), (''time'', True), (''np'', True), (''ql'', True),
      (''tf'', True), (''Adam'', True), (''Model'', True), (''Input'', True),
      (''Concatenate'', True), (''norm'', True), (''pg'', True), (''QtWidgets'', True),
      (''QtCore'', True), (''QtGui'', True), (''ParameterTree'', True), (''Parameter'', True),
      (''RemoteGraphicsView'', True), (''BlackScholesProcess'', True),
      (''European_Call'', True), (''Deep_Hedging_Model'', True), (''Entropy'', True),
      (''CVaR'', True), (''train_test_split'', True), (''Deep_Hedging_Params'', True),
      (''payoff_func'', True), (''calculation_date'', True), (''day_count'', True),
      (''information_set'', True), (''loss_type'', True), (''use_batch_norm'', False),
      (''kernel_initializer'', True), (''activation_dense'', True),
      (''activation_output'', True), (''final_period_cost'', False), (''num_bins'', True),
      (''app'', True), (''DH_Worker'', True), (''MainWindow'', True), (''main'', True)]"

definition read_global :: "string \<Rightarrow> exn + bool" where
  "read_global name =
     (case map_of module_globals name of None \<Rightarrow> Inl (NameError name) | Some b \<Rightarrow> Inr b)"

text \<open>
  Keras tensors are symbolic: \<open>Concatenate()(inputs)\<close> is the starting tensor and calling
  a layer on a tensor gives a new one. A layer is known by its name.
\<close>

datatype tensor = Concatenate_inputs | Layer_call string tensor

datatype submodel =
    Model_between string string
  | Model_of_outputs tensor

text \<open>
  \<open>model.get_layer(name)\<close> raises ValueError when the model has no layer of that name.
\<close>

definition get_layer :: "string list \<Rightarrow> string \<Rightarrow> exn + string" where
  "get_layer layers name = (if name \<in> set layers then Inr name else Inl (ValueError name))"

text \<open>
  The \<open>for idx in range(num_layers)\<close> loop of lines 334 to 342, over the layers that
  remain. \<open>first\<close> is \<open>"dense_0_" + str(self.days_from_today)\<close>. Line 341 reads the
  name \<open>flag_add_layer_for_submodel\<close>, which the function never assigns.
\<close>

fun submodel_loop :: "string \<Rightarrow> string list \<Rightarrow> bool \<Rightarrow> tensor \<Rightarrow> exn + tensor" where
  "submodel_loop first [] flag_add_layer outputs = Inr outputs"
| "submodel_loop first (name # layers) flag_add_layer outputs =
     (if name = first then
        (case read_global ''flag_add_layer_for_submodel'' of
           Inl e \<Rightarrow> Inl e
         | Inr b \<Rightarrow>
             submodel_loop first layers True (if b then Layer_call name outputs else outputs))
      else if name = ''delta_15'' then Inr (Layer_call name outputs)
      else
        (case read_global ''flag_add_layer_for_submodel'' of
           Inl e \<Rightarrow> Inl e
         | Inr b \<Rightarrow>
             submodel_loop first layers flag_add_layer
               (if b then Layer_call name outputs else outputs)))"


definition Define_DH_Delta_Strategy_Model ::
  "string \<Rightarrow> nat \<Rightarrow> string list \<Rightarrow> exn + submodel" where
  "Define_DH_Delta_Strategy_Model strategy_type d layers =
     (if strategy_type = ''simple'' then
        (case get_layer layers (''dense_0_'' @ str_nat d) of
           Inl e \<Rightarrow> Inl e
         | Inr a \<Rightarrow>
           (case get_layer layers (''delta_'' @ str_nat d) of
              Inl e \<Rightarrow> Inl e
            | Inr b \<Rightarrow> Inr (Model_between a b)))
      else if strategy_type = ''recurrent'' then
        (case submodel_loop (''dense_0_'' @ str_nat d) layers False Concatenate_inputs of
           Inl e \<Rightarrow> Inl e
         | Inr outputs \<Rightarrow> Inr (Model_of_outputs outputs))
      else Inl (UnboundLocalError ''submodel''))"

section \<open>The training worker (\<open>DH_Worker\<close>)\<close>

subsection \<open>Flags and the methods that set them\<close>

text \<open>\<open>exit_flag\<close> is \<open>self._exit\<close> and \<open>pause_flag\<close> is \<open>self._pause\<close>.\<close>

record worker =
  exit_flag :: bool
  pause_flag :: bool

definition init_worker :: worker where
  "init_worker = \<lparr> exit_flag = False, pause_flag = False \<rparr>"

definition pause :: "worker \<Rightarrow> worker" where
  "pause w = w\<lparr>pause_flag := True\<rparr>"

definition cont :: "worker \<Rightarrow> worker" where
  "cont w = w\<lparr>pause_flag := False\<rparr>"

text \<open>
  \<open>stop\<close> also calls \<open>QThread.exit\<close>, which asks the thread's Qt event loop to return;
  \<open>run\<close> never starts one, so only the flag reaches the training loop.
\<close>

definition stop :: "worker \<Rightarrow> worker" where
  "stop w = w\<lparr>exit_flag := True\<rparr>"

definition is_running :: "worker \<Rightarrow> bool" where
  "is_running w = (if pause_flag w \<or> exit_flag w then False else True)"

text \<open>
  The window's thread calls the methods while the worker's thread runs the loop. The loop
  reads the flags at the head of an iteration only, so the calls are grouped by the
  iteration whose head sees them first.
\<close>

datatype command = Pause | Cont | Stop

fun apply_command :: "worker \<Rightarrow> command \<Rightarrow> worker" where
  "apply_command w Pause = pause w"
| "apply_command w Cont = cont w"
| "apply_command w Stop = stop w"

subsection \<open>Configuration and collaborators\<close>

text \<open>
  The attributes \<open>run_deep_hedge_algo\<close> stores on the worker (\<open>test_inputs\<close> is
  \<open>self.xtest\<close>), and the module-level \<open>loss_type\<close> (line 60) and \<open>num_bins\<close> (line 71).
\<close>

record config =
  training_dataset :: "real list list"
  epochs :: int
  Ktrain :: int
  batch_size :: int
  loss_param :: real
  test_inputs :: "real list list"
  initial_price_BS :: real
  I_range :: "real list"
  x_range :: "real \<times> real"
  loss_type :: string
  num_bins :: nat

text \<open>
  What the loop calls and does not define: the network and its sub-model (on the current
  weights \<open>'w\<close>, which stand for the trainable weights together with the optimizer's
  accumulators), the two imported loss functions, the gradient tape, the optimizer,
  \<open>np.histogram\<close>, the random permutation that \<open>shuffle\<close> draws for an epoch, and the
  readings of \<open>time.time()\<close> in the order of the calls. Each call that can raise returns
  a sum.
\<close>

record 'w ops =
  model_func :: "'w \<Rightarrow> real list list \<Rightarrow> exn + real list"
  submodel_func :: "'w \<Rightarrow> real list \<Rightarrow> exn + real list"
  Entropy_loss :: "real list \<Rightarrow> real \<Rightarrow> real \<Rightarrow> exn + real"
  CVaR_loss :: "real list \<Rightarrow> real \<Rightarrow> real \<Rightarrow> exn + real"
  tape_gradient :: "'w \<Rightarrow> real list list \<Rightarrow> real \<Rightarrow> exn + 'w"
  apply_gradients :: "'w \<Rightarrow> 'w \<Rightarrow> 'w"
  histogram :: "real list \<Rightarrow> nat \<Rightarrow> real \<times> real \<Rightarrow> exn + nat list"
  shuffle :: "int \<Rightarrow> real list list \<Rightarrow> real list list"
  time_time :: "nat \<Rightarrow> real"

subsection \<open>Mini-batches\<close>

text \<open>
  \<open>Dataset.batch(b)\<close> groups consecutive elements by \<open>b\<close>, the last group holding what
  remains.
\<close>

definition batch :: "nat \<Rightarrow> 'a list \<Rightarrow> 'a list list" where
  "batch b xs = map (\<lambda>i. take b (drop (i * b) xs)) [0..<(length xs + b - 1) div b]"

text \<open>
  The local \<open>mini_batch_iter\<close>: not yet assigned, \<open>None\<close> (line 134), or an iterator
  with the batches it has left.
\<close>

datatype 'b iter_var = Unbound | NoneValue | Iterator "'b list"

fun next_batch :: "'b iter_var \<Rightarrow> exn + ('b \<times> 'b iter_var)" where
  "next_batch Unbound = Inl (UnboundLocalError ''mini_batch_iter'')"
| "next_batch NoneValue = Inl (AttributeError ''next'')"
| "next_batch (Iterator []) = Inl StopIteration"
| "next_batch (Iterator (b # bs)) = Inr (b, Iterator bs)"

text \<open>
  Line 146: \<open>self.training_dataset.shuffle(self.Ktrain).batch(self.batch_size).__iter__()\<close>.
  TensorFlow rejects a shuffle buffer or a batch size that is not positive.
\<close>

definition new_iterator :: "'w ops \<Rightarrow> config \<Rightarrow> int \<Rightarrow> exn + real list list iter_var" where
  "new_iterator ops cfg epoch =
     (if Ktrain cfg \<le> 0 then Inl (InvalidArgumentError ''buffer_size'')
      else if batch_size cfg \<le> 0 then Inl (InvalidArgumentError ''batch_size'')
      else Inr (Iterator (batch (nat (batch_size cfg)) (shuffle ops epoch (training_dataset cfg)))))"

subsection \<open>The loop (\<open>DH_Worker.run\<close>, lines 120 to 170)\<close>

text \<open>The arguments of one \<open>DH_outputs.emit\<close> call.\<close>

record snapshot =
  PnL_DH :: "real list"
  DH_delta :: "real list"
  DH_bins :: "nat list"
  loss :: real
  epoch :: int
  batch_no :: int

text \<open>
  The worker's flags and the locals of \<open>run\<close>. \<open>clock\<close> counts the calls of
  \<open>time.time()\<close>; \<open>emitted\<close> and \<open>optimizer_steps\<close> record the signals emitted and the
  number of \<open>apply_gradients\<close> calls so far.
\<close>

record 'w loop_state =
  flags :: worker
  num_epoch :: int
  num_batch :: int
  mini_batch_iter :: "real list list iter_var"
  weights :: 'w
  start :: real
  clock :: nat
  emitted :: "snapshot list"
  optimizer_steps :: nat

text \<open>
  Lines 140 to 147: the next mini-batch, with the unqualified \<open>except\<close> that starts a new
  epoch. An exception raised inside the handler leaves the loop.
\<close>

definition draw_mini_batch ::
  "'w ops \<Rightarrow> config \<Rightarrow> 'w loop_state \<Rightarrow>
     (exn \<times> 'w loop_state) + (real list list \<times> 'w loop_state)" where
  "draw_mini_batch ops cfg s =
     (case next_batch (mini_batch_iter s) of
        Inr (mini_batch, it) \<Rightarrow> Inr (mini_batch, s\<lparr>mini_batch_iter := it\<rparr>)
      | Inl _ \<Rightarrow>
        (let s1 = s\<lparr>num_batch := 0, num_epoch := num_epoch s + 1\<rparr> in
         case new_iterator ops cfg (num_epoch s1) of
           Inl e \<Rightarrow> Inl (e, s1)
         | Inr it \<Rightarrow>
           (case next_batch it of
              Inl e \<Rightarrow> Inl (e, s1\<lparr>mini_batch_iter := it\<rparr>)
            | Inr (mini_batch, it') \<Rightarrow> Inr (mini_batch, s1\<lparr>mini_batch_iter := it'\<rparr>))))"

text \<open>A call that can raise, in a state: the exception leaves with the state.\<close>

definition try_call :: "exn + 'a \<Rightarrow> 's \<Rightarrow> ('a \<Rightarrow> (exn \<times> 's) + 'r) \<Rightarrow> (exn \<times> 's) + 'r" where
  "try_call r s k = (case r of Inl e \<Rightarrow> Inl (e, s) | Inr v \<Rightarrow> k v)"

text \<open>Lines 164 to 168: the signal is emitted when the clock has advanced.\<close>

definition emit_outputs :: "'w ops \<Rightarrow> snapshot \<Rightarrow> 'w loop_state \<Rightarrow> 'w loop_state" where
  "emit_outputs ops snap s =
     (let end_time = time_time ops (clock s); s1 = s\<lparr>clock := clock s + 1\<rparr> in
      if end_time - start s1 > 0 then s1\<lparr>emitted := emitted s1 @ [snap], start := end_time\<rparr>
      else s1)"

text \<open>Lines 140 to 168: one pass of the loop body while not paused.\<close>

definition training_step ::
  "'w ops \<Rightarrow> config \<Rightarrow> 'w loop_state \<Rightarrow> (exn \<times> 'w loop_state) + 'w loop_state" where
  "training_step ops cfg s0 =
     (case draw_mini_batch ops cfg s0 of
        Inl r \<Rightarrow> Inl r
      | Inr (mini_batch, s1) \<Rightarrow>
        (let s = s1\<lparr>num_batch := num_batch s1 + 1\<rparr> in
         try_call (model_func ops (weights s) mini_batch) s (\<lambda>wealth.
         try_call (Entropy_loss ops wealth 0 (loss_param cfg)) s (\<lambda>l.
         try_call (model_func ops (weights s) (test_inputs cfg)) s (\<lambda>pnl.
         try_call (submodel_func ops (weights s) (I_range cfg)) s (\<lambda>delta.
         try_call (histogram ops (map (\<lambda>p. p + initial_price_BS cfg) pnl)
                     (num_bins cfg) (x_range cfg)) s (\<lambda>bins.
         try_call (tape_gradient ops (weights s) mini_batch l) s (\<lambda>grads.
           Inr (emit_outputs ops
                  \<lparr> PnL_DH = pnl, DH_delta = delta, DH_bins = bins, loss = l,
                    epoch = num_epoch s, batch_no = num_batch s \<rparr>
                  (s\<lparr>weights := apply_gradients ops grads (weights s),
                     optimizer_steps := optimizer_steps s + 1\<rparr>))))))))))"

text \<open>
  How \<open>run\<close> ends: the \<open>while\<close> condition fails, the \<open>break\<close> of line 137, or an
  exception leaves the method.
\<close>

datatype outcome = Loop_finished | Break | Raised exn

text \<open>
  The \<open>while\<close> loop, with fuel: \<open>None\<close> when the fuel runs out before the loop ends (a
  worker that stays paused sleeps for ever). \<open>sched\<close> holds, for each coming iteration,
  the calls of the window's thread that this iteration's head is the first to see.
\<close>

definition observe :: "command list list \<Rightarrow> 'w loop_state \<Rightarrow> 'w loop_state" where
  "observe sched s =
     s\<lparr>flags := foldl apply_command (flags s) (case sched of [] \<Rightarrow> [] | cs # _ \<Rightarrow> cs)\<rparr>"

fun run_loop ::
  "nat \<Rightarrow> 'w ops \<Rightarrow> config \<Rightarrow> command list list \<Rightarrow> 'w loop_state \<Rightarrow>
     (outcome \<times> 'w loop_state) option" where
  "run_loop 0 ops cfg sched s0 = None"
| "run_loop (Suc fuel) ops cfg sched s0 =
     (let s = observe sched s0;
          rest = (case sched of [] \<Rightarrow> [] | _ # r \<Rightarrow> r)
      in
      if \<not> num_epoch s \<le> epochs cfg then Some (Loop_finished, s)
      else if exit_flag (flags s) then
        Some (Break, s\<lparr>mini_batch_iter := NoneValue,
                        flags := \<lparr> exit_flag = False, pause_flag = False \<rparr>\<rparr>)
      else if \<not> pause_flag (flags s) then
        (case training_step ops cfg s of
           Inl (e, s') \<Rightarrow> Some (Raised e, s')
         | Inr s' \<Rightarrow> run_loop fuel ops cfg rest s')
      else run_loop fuel ops cfg rest s)"

text \<open>\<open>run\<close> from its first line, on a worker with the given flags.\<close>

definition run ::
  "nat \<Rightarrow> 'w ops \<Rightarrow> config \<Rightarrow> command list list \<Rightarrow> worker \<Rightarrow> 'w \<Rightarrow>
     (outcome \<times> 'w loop_state) option" where
  "run fuel ops cfg sched w weights0 =
     run_loop fuel ops cfg sched
       \<lparr> flags = w, num_epoch = 0, num_batch = 0, mini_batch_iter = Unbound,
         weights = weights0, start = time_time ops 0, clock = 1, emitted = [],
         optimizer_steps = 0 \<rparr>"

subsection \<open>Counting the steps that remain\<close>

text \<open>
  The batches an iterator variable still yields, and the number of mini-batch steps the
  loop still performs from a state when nothing pauses or stops it: the rest of the
  current epoch, every later epoch up to \<open>epochs\<close>, and the one step that follows the
  increment of \<open>num_epoch\<close> past \<open>epochs\<close>.
\<close>

definition remaining :: "'b iter_var \<Rightarrow> nat" where
  "remaining it = (case it of Iterator bs \<Rightarrow> length bs | _ \<Rightarrow> 0)"

definition steps_left :: "config \<Rightarrow> 'w loop_state \<Rightarrow> nat" where
  "steps_left cfg s =
     (if num_epoch s \<le> epochs cfg
      then remaining (mini_batch_iter s)
           + nat (epochs cfg - num_epoch s)
             * ((length (training_dataset cfg) + nat (batch_size cfg) - 1) div nat (batch_size cfg))
           + 1
      else 0)"

subsection \<open>A small session\<close>

text \<open>
  Collaborators that always succeed, on a network with one real weight whose wealth is
  the weight on every path; a clock that advances at every reading; the identity as the
  permutation of every epoch. Two training paths, batches of one, two epochs.
\<close>

definition demo_ops :: "real ops" where
  "demo_ops =
     \<lparr> model_func = (\<lambda>w b. Inr (map (\<lambda>x. w) b)),
       submodel_func = (\<lambda>w xs. Inr (map (\<lambda>x. w) xs)),
       Entropy_loss = (\<lambda>W c l. Inr (Entropy W c l)),
       CVaR_loss = (\<lambda>W c l. Inr (CVaR W c l)),
       tape_gradient = (\<lambda>w b l. Inr 0),
       apply_gradients = (\<lambda>g w. w - g),
       histogram = (\<lambda>xs n r. Inr (replicate n 0)),
       shuffle = (\<lambda>e xs. xs),
       time_time = (\<lambda>n. real n) \<rparr>"

definition demo_config :: config where
  "demo_config =
     \<lparr> training_dataset = [[1, 0, 1, 0], [1, 0, 2, - 1]], epochs = 2, Ktrain = 2,
       batch_size = 1, loss_param = 1 / 2, test_inputs = [[1], [0], [3], [- 2]],
       initial_price_BS = 0, I_range = [0], x_range = (0, 1),
       loss_type = ''Entropy'', num_bins = 2 \<rparr>"

text \<open>The same collaborators with a forward pass that raises.\<close>

definition failing_ops :: "real ops" where
  "failing_ops = demo_ops\<lparr>model_func := (\<lambda>w b. Inl (RuntimeError ''forward''))\<rparr>"

text \<open>A paused worker in the middle of the first epoch.\<close>

definition paused_state :: "real loop_state" where
  "paused_state =
     \<lparr> flags = \<lparr> exit_flag = False, pause_flag = True \<rparr>, num_epoch = 1, num_batch = 1,
       mini_batch_iter = Iterator [[[1, 0, 2, - 1]]], weights = 0, start = 1, clock = 2,
       emitted = [], optimizer_steps = 1 \<rparr>"

section \<open>Properties of dataset assembly\<close>

lemma foldl_x_all_step:
  "n \<le> N \<Longrightarrow> foldl (x_all_step trade info N) acc [0..<n] =
     acc @ concat (map (\<lambda>i. [trade i, info i]) [0..<n])"
  by (induction n) (simp_all add: x_all_step_def)

lemma x_all_loop_eq:
  "x_all_loop trade info payoff N =
     concat (map (\<lambda>i. [trade i, info i]) [0..<N]) @ [trade N, payoff]"
  by (simp add: x_all_loop_def foldl_x_all_step x_all_step_def)

lemma x_all_loop_hd: "\<exists>rest. x_all_loop trade info payoff N = trade 0 # rest"
  by (cases N) (simp_all add: x_all_loop_eq upt_conv_Cons del: upt_Suc)

lemma length_concat_pairs:
  "length (concat (map (\<lambda>i. [f i, g i]) [0..<n])) = 2 * n"
  by (induction n) simp_all

lemma concat_pairs_even:
  "i < n \<Longrightarrow> concat (map (\<lambda>i. [f i, g i]) [0..<n]) ! (2 * i) = f i"
  by (induction n) (auto simp: nth_append length_concat_pairs less_Suc_eq)

lemma concat_pairs_odd:
  "i < n \<Longrightarrow> concat (map (\<lambda>i. [f i, g i]) [0..<n]) ! Suc (2 * i) = g i"
  by (induction n) (auto simp: nth_append length_concat_pairs less_Suc_eq)

lemma map_concat_pairs:
  "map h (concat (map (\<lambda>i. [f i, g i]) [0..<n])) =
     concat (map (\<lambda>i. [h (f i), h (g i)]) [0..<n])"
  by (induction n) simp_all

lemmas assemble_defs =
  assemble_data_def x_all_def x_all_loop_def x_all_step_def trade_set_def I_set_def
  information_set_def information_def payoff_T_def payoff_func_def train_test_split_def
  split_array_def test_size_def python_int_def from_tensor_slices_def tensor_slice_def

text \<open>
  Claim C1, as the code has it. When \<open>assemble_data\<close> builds \<open>x_all\<close> for \<open>N\<close> time
  steps, the list has \<open>2 N + 2\<close> entries: the trade signal and the information signal of
  step \<open>i\<close> at positions \<open>2 i\<close> and \<open>2 i + 1\<close> for \<open>i\<close> from \<open>0\<close> to \<open>N - 1\<close>, then the
  trade signal of step \<open>N\<close> (the guard \<open>i != self.N\<close> leaves the information signal of
  step \<open>N\<close> out), then the terminal payoff last. The tuple of one path follows the same
  order: price and information at each step before \<open>N\<close>, the price at step \<open>N\<close>, the payoff.
\<close>

theorem x_all_order:
  assumes "x_all N S0 strike S = Inr xs"
  shows "length xs = 2 * N + 2
       \<and> (\<forall>i<N. xs ! (2 * i) = trade_set S i
                \<and> xs ! (2 * i + 1) = I_set information_set S0 S i)
       \<and> xs ! (2 * N) = trade_set S N
       \<and> xs ! (2 * N + 1) = payoff_T strike S
       \<and> (\<forall>k<length S. tensor_slice xs k =
            concat (map (\<lambda>i. [S ! k ! i, information information_set S0 (S ! k ! i)]) [0..<N])
              @ [S ! k ! N, payoff_func strike (last (S ! k))])"
proof -
  from assms have xs:
    "xs = concat (map (\<lambda>i. [trade_set S i, I_set information_set S0 S i]) [0..<N])
            @ [trade_set S N, payoff_T strike S]"
    by (simp add: x_all_def x_all_loop_eq split: if_splits)
  have "length xs = 2 * N + 2"
    by (simp add: xs length_concat_pairs)
  moreover have "\<forall>i<N. xs ! (2 * i) = trade_set S i
      \<and> xs ! (2 * i + 1) = I_set information_set S0 S i"
    by (simp add: xs nth_append length_concat_pairs concat_pairs_even concat_pairs_odd)
  moreover have "xs ! (2 * N) = trade_set S N"
    by (simp add: xs nth_append length_concat_pairs)
  moreover have "xs ! (2 * N + 1) = payoff_T strike S"
    by (simp add: xs nth_append length_concat_pairs)
  moreover have "\<forall>k<length S. tensor_slice xs k =
      concat (map (\<lambda>i. [S ! k ! i, information information_set S0 (S ! k ! i)]) [0..<N])
        @ [S ! k ! N, payoff_func strike (last (S ! k))]"
    by (simp add: xs tensor_slice_def map_concat_pairs trade_set_def I_set_def payoff_T_def)
  ultimately show ?thesis by blast
qed

text \<open>
  One path over one time step, with the price at \<open>1\<close> throughout and \<open>S0 = 1\<close>,
  \<open>strike = 1\<close>: the tuple is price, information, price, payoff.
\<close>

theorem x_all_order_witness:
  "x_all 1 1 1 [[1, 1]] = Inr [[1], [0], [1], [0]]
   \<and> length [[1], [0], [1], [0::real]] = 2 * 1 + 2
   \<and> [[1], [0], [1], [0::real]] ! (2 * 1) = trade_set [[1, 1]] 1
   \<and> [[1], [0], [1], [0::real]] ! (2 * 1 + 1) = payoff_T 1 [[1, 1]]
   \<and> tensor_slice [[1], [0], [1], [0::real]] 0 = [1, 0, 1, 0]"
proof -
  have h: "x_all 1 1 1 [[1, 1]] = Inr [[1], [0], [1], [0]]"
    by (simp add: assemble_defs)
  show ?thesis
    using h x_all_order [OF h]
    by (simp add: assemble_defs)
qed

text \<open>
  Claim C1, as the specification words it, fails on the same input: the specification
  puts the information signal of step \<open>N\<close> before the payoff, the code the trade signal.
\<close>

theorem x_all_spec_order_counterexample:
  "x_all 1 1 1 [[1, 1]] = Inr [[1], [0], [1], [0]]
   \<and> spec_TrainingExample (trade_set [[1, 1]]) (I_set information_set 1 [[1, 1]])
       (payoff_T 1 [[1, 1]]) 1 = [[1], [0], [0], [0]]
   \<and> x_all 1 1 1 [[1, 1]] \<noteq>
       Inr (spec_TrainingExample (trade_set [[1, 1]]) (I_set information_set 1 [[1, 1]])
             (payoff_T 1 [[1, 1]]) 1)"
  by (simp add: assemble_defs spec_TrainingExample_def)

subsection \<open>The split\<close>

lemma split_array_lengths:
  "k \<le> length x \<Longrightarrow> length (fst (split_array rule k x)) = length x - k
     \<and> length (snd (split_array rule k x)) = k"
  by (cases rule) (simp_all add: split_array_def)

lemma nth_take_upt: "map ((!) x) (take m [0..<length x]) = take m x"
  by (simp only: take_map [symmetric] map_nth)

lemma nth_drop_upt: "map ((!) x) (drop m [0..<length x]) = drop m x"
  by (simp only: drop_map [symmetric] map_nth)

lemma split_array_nth:
  "fst (split_array rule k x) = map ((!) x) (train_indices rule (length x) k)
   \<and> snd (split_array rule k x) = map ((!) x) (test_indices rule (length x) k)"
  by (cases rule)
     (simp_all only: split_array_def train_indices_def test_indices_def
        split_rule.case fst_conv snd_conv length_upt diff_zero nth_take_upt nth_drop_upt
        simp_thms)

lemma split_indices_partition:
  "k \<le> n \<Longrightarrow> set (train_indices rule n k) \<inter> set (test_indices rule n k) = {}
     \<and> set (train_indices rule n k) \<union> set (test_indices rule n k) = {0..<n}"
  by (cases rule) (auto simp add: train_indices_def test_indices_def split_array_def)

lemma train_test_split_single:
  "train_test_split rule [x] t = Inr (tr, te) \<Longrightarrow>
     0 \<le> t \<and> nat t < length x
     \<and> tr = [fst (split_array rule (nat t) x)] \<and> te = [snd (split_array rule (nat t) x)]"
  by (auto simp: train_test_split_def split: if_splits)

lemma from_tensor_slices_length:
  "length (from_tensor_slices (col # cols)) = length col"
  by (simp add: from_tensor_slices_def)

text \<open>
  With exact arithmetic the number of training paths is the configured \<open>Ktrain\<close> itself: the total
  \<open>nobs\<close> less the test size.
\<close>

lemma train_size_eq_Ktrain:
  assumes "0 \<le> K" and "0 \<le> r"
  shows "nobs K r - test_size K r = K"
proof -
  have "real_of_int K * (1 + r) = real_of_int K * r + real_of_int K"
    by (simp add: algebra_simps)
  then show ?thesis using assms
    by (simp add: nobs_def test_size_def python_int_def)
qed

text \<open>
  Claim C6. Whenever \<open>assemble_data\<close> succeeds on the simulated paths \<open>S\<close>, the training
  part and the test part together have as many paths as \<open>S\<close>, the test part has
  \<open>test_size\<close> of them, both parts are \<open>S\<close> read at their index lists, the two index
  lists share no index and together hold every index below the number of paths, and the
  dataset handed to the training loop has one element for each training path.
\<close>

theorem assemble_data_partition:
  assumes "assemble_data rule K ratio N S0 strike S = Inr r"
  shows "length (S_train r) + length (S_test r) = length S
       \<and> int (length (S_test r)) = test_size K ratio
       \<and> S_train r = map ((!) S) (train_indices rule (length S) (length (S_test r)))
       \<and> S_test r = map ((!) S) (test_indices rule (length S) (length (S_test r)))
       \<and> set (train_indices rule (length S) (length (S_test r)))
           \<inter> set (test_indices rule (length S) (length (S_test r))) = {}
       \<and> set (train_indices rule (length S) (length (S_test r)))
           \<union> set (test_indices rule (length S) (length (S_test r))) = {0..<length S}
       \<and> length (dataset r) = length (S_train r)"
proof -
  define t where "t = test_size K ratio"
  from assms obtain xa xtr xte Str Ste where
        xa: "x_all N S0 strike S = Inr xa"
    and sx: "train_test_split rule xa t = Inr (xtr, xte)"
    and sS: "train_test_split rule [S] t = Inr (Str, Ste)"
    and r1: "S_train r = hd Str" "S_test r = hd Ste" "dataset r = from_tensor_slices xtr"
    by (auto simp: assemble_data_def t_def Let_def split: sum.splits prod.splits)
  from train_test_split_single [OF sS] have t: "0 \<le> t" "nat t < length S"
    and Str: "Str = [fst (split_array rule (nat t) S)]"
    and Ste: "Ste = [snd (split_array rule (nat t) S)]"
    by simp_all
  have k: "nat t \<le> length S" using t by simp
  have len: "length (S_train r) = length S - nat t" "length (S_test r) = nat t"
    using split_array_lengths [OF k, of rule] by (simp_all add: r1 Str Ste)
  have "xa = x_all_loop (trade_set S) (I_set information_set S0 S) (payoff_T strike S) N"
    using xa by (simp add: x_all_def split: if_splits)
  then obtain rest where xa_eq: "xa = trade_set S 0 # rest"
    using x_all_loop_hd [of "trade_set S" "I_set information_set S0 S" "payoff_T strike S" N]
    by metis
  have "xtr = map (\<lambda>x. fst (split_array rule (nat t) x)) xa"
    using sx by (auto simp: train_test_split_def split: if_splits)
  then have "length (dataset r) = length (fst (split_array rule (nat t) (trade_set S 0)))"
    by (simp add: r1 xa_eq from_tensor_slices_length)
  also have "\<dots> = length S - nat t"
    using split_array_lengths [of "nat t" "trade_set S 0" rule] k by (simp add: trade_set_def)
  finally have ds: "length (dataset r) = length (S_train r)" by (simp add: len)
  show ?thesis
    using len t k ds split_array_nth [of rule "nat t" S] split_indices_partition [OF k, of rule]
    by (simp add: r1 Str Ste t_def)
qed

text \<open>
  Two training paths and a test ratio of one half: three simulated paths, the last of
  which is the test path.
\<close>

theorem assemble_data_partition_witness:
  "assemble_data Test_last 2 (1 / 2) 1 1 1 [[1, 1], [1, 2], [1, 3]] =
     Inr \<lparr> xtrain = [[1, 1], [0, 0], [1, 2], [0, - 1]], xtest = [[1], [0], [3], [- 2]],
           S_train = [[1, 1], [1, 2]], S_test = [[1, 3]],
           option_payoff_train = [0, - 1], option_payoff_test = [- 2],
           dataset = [[1, 0, 1, 0], [1, 0, 2, - 1]] \<rparr>
   \<and> length [[1, 1], [1, 2 :: real]] + length [[1, 3 :: real]]
       = length [[1, 1], [1, 2], [1, 3 :: real]]
   \<and> int (length [[1, 3 :: real]]) = test_size 2 (1 / 2)
   \<and> set (train_indices Test_last 3 1) \<inter> set (test_indices Test_last 3 1) = {}
   \<and> set (train_indices Test_last 3 1) \<union> set (test_indices Test_last 3 1) = {0..<3}"
proof -
  have h: "assemble_data Test_last 2 (1 / 2) 1 1 1 [[1, 1], [1, 2], [1, 3]] =
     Inr \<lparr> xtrain = [[1, 1], [0, 0], [1, 2], [0, - 1]], xtest = [[1], [0], [3], [- 2]],
           S_train = [[1, 1], [1, 2]], S_test = [[1, 3]],
           option_payoff_train = [0, - 1], option_payoff_test = [- 2],
           dataset = [[1, 0, 1, 0], [1, 0, 2, - 1]] \<rparr>"
    by (simp add: assemble_defs)
  show ?thesis
    using h assemble_data_partition [OF h]
    by (simp add: train_indices_def test_indices_def split_array_def test_size_def
        python_int_def eval_nat_numeral)
qed

section \<open>Properties of the entropic loss\<close>

lemma sum_list_exp_pos:
  fixes f :: "real \<Rightarrow> real"
  shows "W \<noteq> [] \<Longrightarrow> 0 < sum_list (map (\<lambda>x. exp (f x)) W)"
proof (induction W)
  case Nil
  then show ?case by simp
next
  case (Cons a W)
  have "0 \<le> sum_list (map (\<lambda>x. exp (f x)) W)"
    by (rule sum_list_nonneg) auto
  moreover have "0 < exp (f a)" by simp
  ultimately show ?case by (simp add: add_pos_nonneg)
qed

lemma mean_exp_pos:
  fixes f :: "real \<Rightarrow> real"
  shows "W \<noteq> [] \<Longrightarrow> 0 < mean (map (\<lambda>x. exp (f x)) W)"
  using sum_list_exp_pos [of W f] by (simp add: mean_def)

lemma sum_list_exp_shift:
  fixes l c :: real
  shows "sum_list (map (\<lambda>x. exp (- l * (x + c))) W)
       = exp (- l * c) * sum_list (map (\<lambda>x. exp (- l * x)) W)"
proof (induction W)
  case Nil
  show ?case by simp
next
  case (Cons a W)
  have "exp (- l * (a + c)) = exp (- l * c) * exp (- l * a)"
    by (simp add: exp_add [symmetric] algebra_simps)
  with Cons show ?case by (simp add: algebra_simps)
qed

lemma mean_exp_shift:
  fixes l c :: real
  shows "mean (map (\<lambda>x. exp (- l * (x + c))) W)
       = exp (- l * c) * mean (map (\<lambda>x. exp (- l * x)) W)"
  by (simp only: mean_def sum_list_exp_shift length_map times_divide_eq_right)

text \<open>
  Claim C8. For a wealth vector with at least one entry (the mean of no entries is not
  defined), a risk aversion \<open>lam > 0\<close> and a constant \<open>c\<close>, adding \<open>c\<close> to every
  wealth lowers the entropic loss by exactly \<open>c\<close>.
\<close>

theorem Entropy_translation:
  assumes "wealth \<noteq> []" and "0 < lam"
  shows "Entropy (map (\<lambda>x. x + c) wealth) w lam = Entropy wealth w lam - c"
proof -
  let ?m = "mean (map (\<lambda>x. exp (- lam * x)) wealth)"
  let ?m' = "mean (map (\<lambda>x. exp (- lam * x)) (map (\<lambda>x. x + c) wealth))"
  have pos: "0 < ?m" using assms(1) by (rule mean_exp_pos)
  have "?m' = mean (map (\<lambda>x. exp (- lam * (x + c))) wealth)"
    by (simp add: comp_def)
  also have "\<dots> = exp (- lam * c) * ?m"
    by (rule mean_exp_shift)
  finally have "ln ?m' = ln (exp (- lam * c) * ?m)" by simp
  also have "\<dots> = - lam * c + ln ?m"
    using pos by (simp add: ln_mult)
  finally have "(1 / lam) * ln ?m' = (1 / lam) * (- lam * c + ln ?m)"
    by simp
  also have "\<dots> = (1 / lam) * ln ?m - c"
    using assms(2) by (simp add: field_simps)
  finally show ?thesis
    unfolding Entropy_def .
qed

theorem Entropy_translation_witness:
  "[0 :: real] \<noteq> [] \<and> (0 :: real) < 1
   \<and> Entropy (map (\<lambda>x. x + 2) [0]) 0 1 = Entropy [0] 0 1 - 2"
  using Entropy_translation [of "[0]" 1 2 0] by simp

section \<open>Properties of the sub-model construction\<close>

lemma read_flag_add_layer_for_submodel:
  "read_global ''flag_add_layer_for_submodel'' = Inl (NameError ''flag_add_layer_for_submodel'')"
  by (simp add: read_global_def module_globals_def)


text \<open>
  On a first layer of any other name the scan reaches line 341 and the construction
  raises NameError, whether or not the layers it looks for are present.
\<close>

lemma recurrent_submodel_other_first_layer:
  "name \<noteq> ''delta_15'' \<Longrightarrow>
     Define_DH_Delta_Strategy_Model ''recurrent'' d (name # layers) =
       Inl (NameError ''flag_add_layer_for_submodel'')"
  by (simp add: Define_DH_Delta_Strategy_Model_def read_flag_add_layer_for_submodel)




section \<open>Properties of the training loop\<close>

subsection \<open>Flags\<close>


lemma observe_fields:
  "num_epoch (observe sched s) = num_epoch s"
  "num_batch (observe sched s) = num_batch s"
  "mini_batch_iter (observe sched s) = mini_batch_iter s"
  "weights (observe sched s) = weights s"
  "emitted (observe sched s) = emitted s"
  "optimizer_steps (observe sched s) = optimizer_steps s"
  "start (observe sched s) = start s"
  "clock (observe sched s) = clock s"
  by (simp_all add: observe_def)

lemma observe_Nil: "observe [] s = s"
  by (simp add: observe_def)


lemma run_loop_exit:
  assumes "exit_flag (flags (observe sched s))"
  shows "run_loop (Suc fuel) ops cfg sched s =
           (if num_epoch s \<le> epochs cfg
            then Some (Break, (observe sched s)\<lparr>mini_batch_iter := NoneValue, flags := init_worker\<rparr>)
            else Some (Loop_finished, observe sched s))"
  using assms by (simp add: Let_def observe_fields init_worker_def)

lemmas loop_defs =
  run_def observe_def training_step_def draw_mini_batch_def new_iterator_def batch_def
  try_call_def emit_outputs_def init_worker_def demo_ops_def demo_config_def failing_ops_def
  paused_state_def Entropy_def CVaR_def mean_def

text \<open>
  Claim C9. \<open>is_running\<close> is true exactly when neither flag is set; it is false on a
  paused worker, which \<open>cont\<close> makes running again unless a stop is pending; and when the
  loop honours a stop request it clears both flags before it leaves, so \<open>is_running\<close> is
  true on the worker whose loop has just ended.
\<close>

theorem is_running_flags:
  "is_running w = (\<not> pause_flag w \<and> \<not> exit_flag w)
   \<and> \<not> is_running (pause w)
   \<and> is_running (cont (pause w)) = (\<not> exit_flag w)
   \<and> (num_epoch s \<le> epochs cfg \<and> exit_flag (flags (observe sched s)) \<longrightarrow>
        (\<exists>s'. run_loop (Suc fuel) ops cfg sched s = Some (Break, s')
              \<and> flags s' = \<lparr> exit_flag = False, pause_flag = False \<rparr>
              \<and> is_running (flags s')))"
proof -
  have "is_running w = (\<not> pause_flag w \<and> \<not> exit_flag w)"
    by (simp add: is_running_def)
  moreover have "\<not> is_running (pause w)"
    by (simp add: is_running_def pause_def)
  moreover have "is_running (cont (pause w)) = (\<not> exit_flag w)"
    by (simp add: is_running_def pause_def cont_def)
  moreover have "num_epoch s \<le> epochs cfg \<and> exit_flag (flags (observe sched s)) \<longrightarrow>
        (\<exists>s'. run_loop (Suc fuel) ops cfg sched s = Some (Break, s')
              \<and> flags s' = \<lparr> exit_flag = False, pause_flag = False \<rparr>
              \<and> is_running (flags s'))"
    by (simp add: run_loop_exit init_worker_def is_running_def del: run_loop.simps)
  ultimately show ?thesis by blast
qed

text \<open>The paused worker of the small session, stopped from the window.\<close>

theorem is_running_flags_witness:
  "\<not> is_running (flags paused_state)
   \<and> num_epoch paused_state \<le> epochs demo_config
   \<and> exit_flag (flags (observe [[Stop]] paused_state))
   \<and> (\<exists>s'. run_loop (Suc 0) demo_ops demo_config [[Stop]] paused_state = Some (Break, s')
          \<and> is_running (flags s'))"
proof -
  have h: "num_epoch paused_state \<le> epochs demo_config
      \<and> exit_flag (flags (observe [[Stop]] paused_state))"
    by (simp add: paused_state_def demo_config_def observe_def stop_def)
  have "\<not> is_running (flags paused_state)"
    by (simp add: paused_state_def is_running_def)
  with h is_running_flags [of "flags paused_state" paused_state demo_config "[[Stop]]" 0 demo_ops]
  show ?thesis by blast
qed

subsection \<open>Stopping\<close>



subsection \<open>Drawing a mini-batch\<close>

lemma length_batch: "length (batch b xs) = (length xs + b - 1) div b"
  by (simp add: batch_def)

lemma batches_pos: "xs \<noteq> [] \<Longrightarrow> 0 < b \<Longrightarrow> 0 < (length xs + b - 1) div b"
proof -
  assume a: "xs \<noteq> []" "0 < b"
  then have "b \<le> length xs + b - 1" by (cases xs) simp_all
  then show ?thesis using a(2) by (simp add: div_greater_zero_iff)
qed


lemma ceiling_batches:
  assumes "0 < b"
  shows "nat \<lceil>real n / real b\<rceil> = (n + b - 1) div b"
proof -
  let ?q = "(n + b - 1) div b"
  have le: "?q * b \<le> n + b - 1" by simp
  have gt: "n + b - 1 < (?q + 1) * b"
    using assms by (metis Suc_eq_plus1 dividend_less_div_times mult.commute mult_Suc)
  have 1: "real n \<le> real ?q * real b"
  proof -
    from gt assms have "n \<le> ?q * b" by simp
    then show ?thesis by (metis of_nat_le_iff of_nat_mult)
  qed
  have 2: "(real ?q - 1) * real b < real n"
  proof -
    from le assms have "?q * b < n + b" by linarith
    then have "real (?q * b) < real (n + b)" by (simp only: of_nat_less_iff)
    then show ?thesis by (simp add: algebra_simps)
  qed
  have "\<lceil>real n / real b\<rceil> = int ?q"
  proof (rule ceiling_unique)
    show "real_of_int (int ?q) - 1 < real n / real b"
      using 2 assms by (simp add: field_simps)
    show "real n / real b \<le> real_of_int (int ?q)"
      using 1 assms by (simp add: field_simps)
  qed
  then show ?thesis by simp
qed


lemma draw_next:
  assumes "mini_batch_iter s = Iterator (b # bs)"
  shows "draw_mini_batch ops cfg s = Inr (b, s\<lparr>mini_batch_iter := Iterator bs\<rparr>)"
  using assms by (simp add: draw_mini_batch_def)

lemma draw_new_epoch:
  assumes "remaining (mini_batch_iter s) = 0"
    and "0 < Ktrain cfg" and "0 < batch_size cfg"
    and "training_dataset cfg \<noteq> []"
    and "\<And>e. length (shuffle ops e (training_dataset cfg)) = length (training_dataset cfg)"
  shows "\<exists>b bs. draw_mini_batch ops cfg s =
            Inr (b, s\<lparr>num_batch := 0, num_epoch := num_epoch s + 1, mini_batch_iter := Iterator bs\<rparr>)
          \<and> Suc (length bs) =
              (length (training_dataset cfg) + nat (batch_size cfg) - 1) div nat (batch_size cfg)"
proof -
  let ?xs = "shuffle ops (num_epoch s + 1) (training_dataset cfg)"
  let ?B = "nat (batch_size cfg)"
  have raise: "\<exists>e. next_batch (mini_batch_iter s) = Inl e"
    using assms(1)
    by (cases "mini_batch_iter s" rule: next_batch.cases) (simp_all add: remaining_def)
  have len: "length (batch ?B ?xs) = (length (training_dataset cfg) + ?B - 1) div ?B"
    by (simp add: length_batch assms(5))
  have "0 < (length (training_dataset cfg) + ?B - 1) div ?B"
    using batches_pos [OF assms(4), of ?B] assms(3) by simp
  with len obtain b bs where b: "batch ?B ?xs = b # bs"
    by (cases "batch ?B ?xs") auto
  have "draw_mini_batch ops cfg s =
          Inr (b, s\<lparr>num_batch := 0, num_epoch := num_epoch s + 1, mini_batch_iter := Iterator bs\<rparr>)"
    using raise assms(2,3) by (auto simp: draw_mini_batch_def new_iterator_def Let_def b)
  moreover have "Suc (length bs) = (length (training_dataset cfg) + ?B - 1) div ?B"
    using len b by simp
  ultimately show ?thesis by blast
qed



subsection \<open>Exceptions in the forward and backward computation\<close>



subsection \<open>The number of steps of an undisturbed run\<close>

lemma training_step_after_draw:
  assumes d: "draw_mini_batch ops cfg s = Inr (b, s1)"
    and ok: "\<And>w x. \<exists>v. model_func ops w x = Inr v"
            "\<And>w x. \<exists>v. submodel_func ops w x = Inr v"
            "\<And>W c l. \<exists>v. Entropy_loss ops W c l = Inr v"
            "\<And>xs n r. \<exists>v. histogram ops xs n r = Inr v"
            "\<And>w x l. \<exists>v. tape_gradient ops w x l = Inr v"
    and t: "start s1 < time_time ops (clock s1)"
  shows "\<exists>s2 snap. training_step ops cfg s = Inr s2
           \<and> emitted s2 = emitted s1 @ [snap]
           \<and> optimizer_steps s2 = optimizer_steps s1 + 1
           \<and> num_epoch s2 = num_epoch s1 \<and> mini_batch_iter s2 = mini_batch_iter s1
           \<and> flags s2 = flags s1
           \<and> start s2 = time_time ops (clock s1) \<and> clock s2 = clock s1 + 1"
proof -
  obtain wealth where 1: "model_func ops (weights s1) b = Inr wealth" using ok(1) by blast
  obtain l where 2: "Entropy_loss ops wealth 0 (loss_param cfg) = Inr l" using ok(3) by blast
  obtain pnl where 3: "model_func ops (weights s1) (test_inputs cfg) = Inr pnl"
    using ok(1) by blast
  obtain delta where 4: "submodel_func ops (weights s1) (I_range cfg) = Inr delta"
    using ok(2) by blast
  obtain bins where 5: "histogram ops (map (\<lambda>p. p + initial_price_BS cfg) pnl)
                     (num_bins cfg) (x_range cfg) = Inr bins" using ok(4) by blast
  obtain grads where 6: "tape_gradient ops (weights s1) b l = Inr grads" using ok(5) by blast
  show ?thesis
    using t by (simp add: training_step_def d Let_def try_call_def 1 2 3 4 5 6 emit_outputs_def)
qed

lemma run_loop_counts:
  assumes cfg: "0 < Ktrain cfg" "0 < batch_size cfg" "training_dataset cfg \<noteq> []"
    and sh: "\<And>e. length (shuffle ops e (training_dataset cfg)) = length (training_dataset cfg)"
    and ok: "\<And>w x. \<exists>v. model_func ops w x = Inr v"
            "\<And>w x. \<exists>v. submodel_func ops w x = Inr v"
            "\<And>W c l. \<exists>v. Entropy_loss ops W c l = Inr v"
            "\<And>xs n r. \<exists>v. histogram ops xs n r = Inr v"
            "\<And>w x l. \<exists>v. tape_gradient ops w x l = Inr v"
    and mono: "\<And>n. time_time ops n < time_time ops (Suc n)"
  shows "steps_left cfg s = r \<Longrightarrow> \<not> exit_flag (flags s) \<Longrightarrow> \<not> pause_flag (flags s)
     \<Longrightarrow> start s < time_time ops (clock s)
     \<Longrightarrow> \<exists>s'. run_loop (Suc r) ops cfg [] s = Some (Loop_finished, s')
            \<and> length (emitted s') = length (emitted s) + r
            \<and> optimizer_steps s' = optimizer_steps s + r"
proof (induction r arbitrary: s)
  case 0
  then have "\<not> num_epoch s \<le> epochs cfg"
    by (simp add: steps_left_def split: if_splits)
  then show ?case by (simp add: observe_Nil)
next
  case (Suc r)
  let ?nb = "(length (training_dataset cfg) + nat (batch_size cfg) - 1) div nat (batch_size cfg)"
  from Suc.prems(1) have ep: "num_epoch s \<le> epochs cfg"
    by (simp add: steps_left_def split: if_splits)
  have "\<exists>b s1. draw_mini_batch ops cfg s = Inr (b, s1) \<and> steps_left cfg s1 = r
          \<and> flags s1 = flags s \<and> start s1 = start s \<and> clock s1 = clock s
          \<and> emitted s1 = emitted s \<and> optimizer_steps s1 = optimizer_steps s"
  proof (cases "remaining (mini_batch_iter s) = 0")
    case True
    from draw_new_epoch [OF True cfg sh] obtain b bs where
      d: "draw_mini_batch ops cfg s =
            Inr (b, s\<lparr>num_batch := 0, num_epoch := num_epoch s + 1, mini_batch_iter := Iterator bs\<rparr>)"
      and n: "Suc (length bs) = ?nb"
      by blast
    have r: "r = nat (epochs cfg - num_epoch s) * ?nb"
      using Suc.prems(1) ep True by (simp add: steps_left_def)
    have "steps_left cfg (s\<lparr>num_batch := 0, num_epoch := num_epoch s + 1,
             mini_batch_iter := Iterator bs\<rparr>) = r"
    proof (cases "num_epoch s + 1 \<le> epochs cfg")
      case True
      then have "nat (epochs cfg - num_epoch s) = Suc (nat (epochs cfg - (num_epoch s + 1)))"
        by simp
      then show ?thesis
        using True n by (simp add: steps_left_def remaining_def r)
    next
      case False
      with ep have "epochs cfg - num_epoch s = 0" by simp
      then show ?thesis using False by (simp add: steps_left_def r)
    qed
    with d show ?thesis by simp
  next
    case False
    then obtain b bs where it: "mini_batch_iter s = Iterator (b # bs)"
      by (cases "mini_batch_iter s" rule: next_batch.cases) (simp_all add: remaining_def)
    have "steps_left cfg (s\<lparr>mini_batch_iter := Iterator bs\<rparr>) = r"
      using Suc.prems(1) ep it by (simp add: steps_left_def remaining_def)
    with draw_next [OF it] show ?thesis by simp
  qed
  then obtain b s1 where d: "draw_mini_batch ops cfg s = Inr (b, s1)"
    and s1: "steps_left cfg s1 = r" "flags s1 = flags s" "start s1 = start s"
      "clock s1 = clock s" "emitted s1 = emitted s" "optimizer_steps s1 = optimizer_steps s"
    by blast
  have t: "start s1 < time_time ops (clock s1)" using Suc.prems(4) s1 by simp
  from training_step_after_draw [OF d ok t] obtain s2 snap where
    st: "training_step ops cfg s = Inr s2"
    and s2: "emitted s2 = emitted s1 @ [snap]" "optimizer_steps s2 = optimizer_steps s1 + 1"
      "num_epoch s2 = num_epoch s1" "mini_batch_iter s2 = mini_batch_iter s1"
      "flags s2 = flags s1" "start s2 = time_time ops (clock s1)" "clock s2 = clock s1 + 1"
    by blast
  have "steps_left cfg s2 = steps_left cfg s1"
    using s2 by (simp add: steps_left_def)
  then have "steps_left cfg s2 = r"
    using s1(1) by simp
  moreover have "\<not> exit_flag (flags s2)" "\<not> pause_flag (flags s2)"
    using Suc.prems(2,3) s1 s2 by simp_all
  moreover have "start s2 < time_time ops (clock s2)"
    using mono [of "clock s1"] s2 by simp
  ultimately obtain s' where
    r: "run_loop (Suc r) ops cfg [] s2 = Some (Loop_finished, s')"
      "length (emitted s') = length (emitted s2) + r"
      "optimizer_steps s' = optimizer_steps s2 + r"
    using Suc.IH by blast
  have "run_loop (Suc (Suc r)) ops cfg [] s = run_loop (Suc r) ops cfg [] s2"
    using ep Suc.prems(2,3) st
    by (subst run_loop.simps(2)) (simp add: observe_Nil del: run_loop.simps)
  with r s1 s2 show ?case by simp
qed

text \<open>
  Claim C2, as the code has it. With collaborators that never raise, a clock that
  advances between readings, a positive shuffle buffer and batch size, a dataset of
  \<open>n > 0\<close> training paths and \<open>epochs \<ge> 0\<close>, a run that is never paused or stopped ends
  on its own, by the loop condition, after \<open>epochs * ceil (n / batch_size) + 1\<close>
  mini-batch steps, each with its snapshot: the condition \<open>num_epoch <= epochs\<close> lets
  the loop start the epoch after the last and perform its first batch.
\<close>

theorem run_snapshot_count:
  assumes "0 \<le> epochs cfg"
    and "0 < Ktrain cfg" and "0 < batch_size cfg" and "training_dataset cfg \<noteq> []"
    and "\<And>e. length (shuffle ops e (training_dataset cfg)) = length (training_dataset cfg)"
    and "\<And>w x. \<exists>v. model_func ops w x = Inr v"
    and "\<And>w x. \<exists>v. submodel_func ops w x = Inr v"
    and "\<And>W c l. \<exists>v. Entropy_loss ops W c l = Inr v"
    and "\<And>xs n r. \<exists>v. histogram ops xs n r = Inr v"
    and "\<And>w x l. \<exists>v. tape_gradient ops w x l = Inr v"
    and "\<And>n. time_time ops n < time_time ops (Suc n)"
  shows "\<exists>s'. run (nat (epochs cfg)
                    * nat \<lceil>real (length (training_dataset cfg)) / real_of_int (batch_size cfg)\<rceil> + 2)
                 ops cfg [] init_worker w0 = Some (Loop_finished, s')
            \<and> length (emitted s') =
                nat (epochs cfg)
                  * nat \<lceil>real (length (training_dataset cfg)) / real_of_int (batch_size cfg)\<rceil> + 1
            \<and> optimizer_steps s' = length (emitted s')"
proof -
  let ?B = "nat (batch_size cfg)"
  let ?nb = "(length (training_dataset cfg) + ?B - 1) div ?B"
  let ?s0 = "\<lparr> flags = init_worker, num_epoch = 0, num_batch = 0, mini_batch_iter = Unbound,
         weights = w0, start = time_time ops 0, clock = 1, emitted = [],
         optimizer_steps = 0 \<rparr>"
  have B: "0 < ?B" "real_of_int (batch_size cfg) = real ?B" using assms(3) by simp_all
  have c: "nat \<lceil>real (length (training_dataset cfg)) / real_of_int (batch_size cfg)\<rceil> = ?nb"
    using ceiling_batches [OF B(1)] by (simp only: B(2))
  have sl: "steps_left cfg ?s0 = nat (epochs cfg) * ?nb + 1"
    using assms(1) by (simp add: steps_left_def remaining_def)
  have fl: "\<not> exit_flag (flags ?s0)" "\<not> pause_flag (flags ?s0)"
    by (simp_all add: init_worker_def)
  have t: "start ?s0 < time_time ops (clock ?s0)"
    using assms(11) [of 0] by simp
  from run_loop_counts [OF assms(2-11) sl fl t]
  obtain s' where "run_loop (Suc (nat (epochs cfg) * ?nb + 1)) ops cfg [] ?s0 = Some (Loop_finished, s')"
    "length (emitted s') = nat (epochs cfg) * ?nb + 1"
    "optimizer_steps s' = nat (epochs cfg) * ?nb + 1"
    by auto
  then show ?thesis
    by (simp only: c run_def) simp
qed

text \<open>
  Two epochs over two training paths in batches of one: five snapshots, the last one
  labelled epoch 3, batch 1, where the schedule \<open>2 * ceil (2 / 1)\<close> has four.
\<close>

theorem run_snapshot_count_witness:
  "(\<exists>s'. run 6 demo_ops demo_config [] init_worker 0 = Some (Loop_finished, s')
        \<and> length (emitted s') = 5 \<and> optimizer_steps s' = length (emitted s'))
   \<and> map_option (\<lambda>r. map (\<lambda>x. (epoch x, batch_no x)) (emitted (snd r)))
        (run 6 demo_ops demo_config [] init_worker 0)
       = Some [(1, 1), (1, 2), (2, 1), (2, 2), (3, 1)]
   \<and> 2 * nat \<lceil>real (length (training_dataset demo_config))
               / real_of_int (batch_size demo_config)\<rceil> = 4"
proof -
  have n: "nat (epochs demo_config)
        * nat \<lceil>real (length (training_dataset demo_config)) / real_of_int (batch_size demo_config)\<rceil>
      = 4"
    by (simp add: demo_config_def)
  have "\<exists>s'. run (nat (epochs demo_config)
        * nat \<lceil>real (length (training_dataset demo_config)) / real_of_int (batch_size demo_config)\<rceil>
        + 2) demo_ops demo_config [] init_worker 0 = Some (Loop_finished, s')
      \<and> length (emitted s') = nat (epochs demo_config)
        * nat \<lceil>real (length (training_dataset demo_config)) / real_of_int (batch_size demo_config)\<rceil>
        + 1
      \<and> optimizer_steps s' = length (emitted s')"
    by (rule run_snapshot_count) (simp_all add: demo_config_def demo_ops_def)
  then have 1: "\<exists>s'. run 6 demo_ops demo_config [] init_worker 0 = Some (Loop_finished, s')
        \<and> length (emitted s') = 5 \<and> optimizer_steps s' = length (emitted s')"
    by (simp only: n) simp
  have 2: "map_option (\<lambda>r. map (\<lambda>x. (epoch x, batch_no x)) (emitted (snd r)))
        (run 6 demo_ops demo_config [] init_worker 0)
       = Some [(1, 1), (1, 2), (2, 1), (2, 2), (3, 1)]"
    by (simp add: loop_defs eval_nat_numeral upt_rec)
  have 3: "2 * nat \<lceil>real (length (training_dataset demo_config))
               / real_of_int (batch_size demo_config)\<rceil> = 4"
    by (simp add: demo_config_def)
  from 1 2 3 show ?thesis by blast
qed

subsection \<open>The loss that is minimised\<close>

lemma training_step_ignores_loss_type:
  "training_step (ops\<lparr>CVaR_loss := f\<rparr>) (cfg\<lparr>loss_type := t\<rparr>) s = training_step ops cfg s"
proof -
  have n: "new_iterator (ops\<lparr>CVaR_loss := f\<rparr>) (cfg\<lparr>loss_type := t\<rparr>) e = new_iterator ops cfg e"
    for e
    by (simp add: new_iterator_def)
  have "draw_mini_batch (ops\<lparr>CVaR_loss := f\<rparr>) (cfg\<lparr>loss_type := t\<rparr>) s
      = draw_mini_batch ops cfg s"
    by (simp add: draw_mini_batch_def Let_def n split: sum.splits prod.splits)
  moreover have "emit_outputs (ops\<lparr>CVaR_loss := f\<rparr>) snap s' = emit_outputs ops snap s'" for snap s'
    by (simp add: emit_outputs_def)
  ultimately show ?thesis
    by (simp add: training_step_def try_call_def Let_def split: sum.splits prod.splits)
qed


end
